theory Spec2Isabelle
  imports Main "HOL-Library.Sublist" "HOL-Library.AList"
begin

section \<open>JavaScript values of the frontend\<close>

text \<open>
  The pages under \<open>frontend/src/pages\<close> work on data parsed from the API's JSON
  responses. A value is one of JSON's; an object is the list of its own properties in
  insertion order, and a property that is absent reads as \<open>undefined\<close>, the \<open>None\<close> of
  \<open>map_of\<close>. Numbers are the integer-valued ones that JavaScript prints digit by digit
  (scores are whole numbers from 1 to 10, counts and page numbers are naturals); strings
  are byte strings.
\<close>

datatype jsval =
    JNull
  | JBool bool
  | JNum int
  | JStr string
  | JArr "jsval list"
  | JObj "(string \<times> jsval) list"

type_synonym Review = "(string \<times> jsval) list"

text \<open>\<open>a ?? b\<close> on a property read: \<open>b\<close> when the value is null or undefined.\<close>

fun nullish_or :: "jsval option \<Rightarrow> jsval \<Rightarrow> jsval" where
  "nullish_or None d = d"
| "nullish_or (Some JNull) d = d"
| "nullish_or (Some v) d = v"

subsection \<open>\<open>Array.prototype.join\<close> and \<open>String.prototype.includes\<close>\<close>

fun join :: "string \<Rightarrow> string list \<Rightarrow> string" where
  "join sep [] = []"
| "join sep [x] = x"
| "join sep (x # y # ys) = x @ sep @ join sep (y # ys)"

fun str_includes :: "string \<Rightarrow> string \<Rightarrow> bool" where
  "str_includes [] p = (p = [])"
| "str_includes (c # cs) p = (prefix p (c # cs) \<or> str_includes cs p)"

subsection \<open>\<open>JSON.stringify\<close> without indentation\<close>

definition digit_char :: "nat \<Rightarrow> char" where
  "digit_char d = ''0123456789'' ! d"

fun digits :: "nat \<Rightarrow> string" where
  "digits n = (if n < 10 then [digit_char n] else digits (n div 10) @ [digit_char (n mod 10)])"

declare digits.simps [simp del]

definition number_to_string :: "int \<Rightarrow> string" where
  "number_to_string i = (if i < 0 then CHR ''-'' # digits (nat (- i)) else digits (nat i))"

definition hex_char :: "nat \<Rightarrow> char" where
  "hex_char d = ''0123456789abcdef'' ! d"

text \<open>
  \<open>QuoteJSONString\<close> of ECMA-262: the quote and the backslash are escaped with a
  backslash, the control characters below U+0020 by their short escape or \<open>\u00XX\<close>,
  every other character stands for itself.
\<close>

definition json_escape :: "char \<Rightarrow> string" where
  "json_escape c =
     (let n = of_char c :: nat in
      if n = 0x08 then [CHR 0x5C, CHR ''b'']
      else if n = 0x09 then [CHR 0x5C, CHR ''t'']
      else if n = 0x0A then [CHR 0x5C, CHR ''n'']
      else if n = 0x0C then [CHR 0x5C, CHR ''f'']
      else if n = 0x0D then [CHR 0x5C, CHR ''r'']
      else if n = 0x22 then [CHR 0x5C, CHR 0x22]
      else if n = 0x5C then [CHR 0x5C, CHR 0x5C]
      else if n < 0x20 then
        [CHR 0x5C, CHR ''u'', CHR ''0'', CHR ''0'', hex_char (n div 16), hex_char (n mod 16)]
      else [c])"

definition QuoteJSONString :: "string \<Rightarrow> string" where
  "QuoteJSONString s = CHR 0x22 # concat (map json_escape s) @ [CHR 0x22]"

fun JSON_stringify :: "jsval \<Rightarrow> string" where
  "JSON_stringify JNull = ''null''"
| "JSON_stringify (JBool b) = (if b then ''true'' else ''false'')"
| "JSON_stringify (JNum n) = number_to_string n"
| "JSON_stringify (JStr s) = QuoteJSONString s"
| "JSON_stringify (JArr vs) = ''['' @ join '','' (map JSON_stringify vs) @ '']''"
| "JSON_stringify (JObj kvs) =
     ''{'' @ join '','' (map (\<lambda>kv. QuoteJSONString (fst kv) @ '':'' @ JSON_stringify (snd kv)) kvs)
       @ ''}''"

section \<open>\<open>History.tsx\<close>\<close>

subsection \<open>Filters and list parameters\<close>

text \<open>
  \<open>HistoryFilterValue\<close> and \<open>ListReviewsParams\<close> are declared in files that are not part
  of the sources; their fields are the ones \<open>toReviewParams\<close> reads and writes. An
  optional property is an \<open>option\<close>. A \<open>Date\<close> is kept abstract (\<open>'d\<close>);
  \<open>Date.prototype.toISOString\<close> and date-fns' \<open>endOfDay\<close> are parameters.
\<close>

record 'd DateRange =
  date_from :: "'d option"
  date_to :: "'d option"

record 'd HistoryFilterValue =
  f_language :: "string option"
  scoreRange :: "(int \<times> int) option"
  date :: "'d DateRange option"

record ListReviewsParams =
  page :: int
  page_size :: int
  language :: "string option"
  min_score :: "int option"
  max_score :: "int option"
  start_date :: "string option"
  end_date :: "string option"

definition DEFAULT_FILTERS :: "'d HistoryFilterValue" where
  "DEFAULT_FILTERS = \<lparr>f_language = Some ''all'', scoreRange = Some (0, 10), date = None\<rparr>"

text \<open>\<open>f.date?.from\<close> and \<open>f.date?.to\<close>.\<close>

definition date_from_of :: "'d HistoryFilterValue \<Rightarrow> 'd option" where
  "date_from_of f = (case date f of None \<Rightarrow> None | Some r \<Rightarrow> date_from r)"

definition date_to_of :: "'d HistoryFilterValue \<Rightarrow> 'd option" where
  "date_to_of f = (case date f of None \<Rightarrow> None | Some r \<Rightarrow> date_to r)"

text \<open>
  The parameter \<open>page\<close> defaults to 1 when the caller passes none. A string is truthy
  when it is not empty; a \<open>Date\<close> object is always truthy.
\<close>

definition toReviewParams ::
  "('d \<Rightarrow> string) \<Rightarrow> ('d \<Rightarrow> 'd) \<Rightarrow> 'd HistoryFilterValue \<Rightarrow> int option \<Rightarrow> ListReviewsParams" where
  "toReviewParams toISOString endOfDay f pg =
     (let params = \<lparr>page = (case pg of None \<Rightarrow> 1 | Some p \<Rightarrow> p), page_size = 20,
                     language = None, min_score = None, max_score = None,
                     start_date = None, end_date = None\<rparr>;
          params = (case f_language f of
                      Some l \<Rightarrow> if l \<noteq> [] \<and> l \<noteq> ''all'' then params\<lparr>language := Some l\<rparr> else params
                    | None \<Rightarrow> params);
          (mn, mx) = (case scoreRange f of None \<Rightarrow> (0, 10) | Some r \<Rightarrow> r);
          params = (if mn > 0 then params\<lparr>min_score := Some mn\<rparr> else params);
          params = (if mx < 10 then params\<lparr>max_score := Some mx\<rparr> else params);
          params = (case date_from_of f of
                      Some d \<Rightarrow> params\<lparr>start_date := Some (toISOString d)\<rparr>
                    | None \<Rightarrow> params);
          params = (case date_to_of f of
                      Some d \<Rightarrow> params\<lparr>end_date := Some (toISOString (endOfDay d))\<rparr>
                    | None \<Rightarrow> params)
      in params)"

subsection \<open>CSV export\<close>

text \<open>
  \<open>exportCSV\<close> builds one \<open>CsvRow\<close> per item of the current page, then one text line
  per row. A row object holds the five properties in the order of the literal; a
  property whose value is \<open>undefined\<close> is \<open>None\<close>.
\<close>

type_synonym CsvRow = "(string \<times> jsval option) list"

definition csv_row :: "Review \<Rightarrow> CsvRow" where
  "csv_row r =
     [(''id'', map_of r ''id''),
      (''language'', map_of r ''language''),
      (''status'', map_of r ''status''),
      (''score'', Some (nullish_or (map_of r ''score'') (JStr []))),
      (''created_at'', map_of r ''created_at'')]"

definition headers :: "string list" where
  "headers = [''id'', ''language'', ''status'', ''score'', ''created_at'']"

text \<open>\<open>r[h] ?? ""\<close> for a row \<open>r\<close> and a header \<open>h\<close>.\<close>

definition row_cell :: "CsvRow \<Rightarrow> string \<Rightarrow> jsval" where
  "row_cell r h = nullish_or (case map_of r h of None \<Rightarrow> None | Some v \<Rightarrow> v) (JStr [])"

definition csv_line :: "CsvRow \<Rightarrow> string" where
  "csv_line r = join '','' (map (\<lambda>h. JSON_stringify (row_cell r h)) headers)"

definition exportCSV :: "Review list \<Rightarrow> string" where
  "exportCSV items =
     (let rows = map csv_row items
      in join [CHR 0x0A] (join '','' headers # map csv_line rows))"

text \<open>The lines of a text: the pieces between its line feeds.\<close>

fun split_lines :: "string \<Rightarrow> string list" where
  "split_lines [] = [[]]"
| "split_lines (c # cs) =
     (if c = CHR 0x0A then [] # split_lines cs
      else (case split_lines cs of l # ls \<Rightarrow> (c # l) # ls | [] \<Rightarrow> [[c]]))"

section \<open>\<open>Submit.tsx\<close>\<close>

text \<open>
  The page keeps the active submission id in component state and the latest reviews in
  the query cache under the key \<open>["reviews"]\<close>. The cached page is absent
  (\<open>undefined\<close>) until a first fetch has filled it. \<open>invalidateQueries\<close> marks the
  cached page stale; the refetch that follows is the server's answer and no part of the
  page. The notices shown by \<open>toast\<close> are collected in a list.
\<close>

record PaginatedReviewsResponse =
  items :: "Review list"
  total :: int
  resp_page :: int
  resp_page_size :: int

record submit_payload =
  payload_language :: string
  payload_code :: string

record submit_response =
  res_id :: string
  res_status :: string

record mutation_context =
  previous :: PaginatedReviewsResponse
  tempId :: string

text \<open>
  What \<open>onError\<close> can be handed: an \<open>Error\<close> with its message, or any other thrown
  value.
\<close>

datatype thrown = ErrorObj string | NonError

record toast_notice =
  toast_title :: string
  toast_position :: string
  toast_description :: string

record submit_page =
  active_id :: "string option"
  reviews_data :: "PaginatedReviewsResponse option"
  reviews_stale :: bool
  notices :: "toast_notice list"

text \<open>
  The readings of the clock during \<open>onMutate\<close>: \<open>Date.now()\<close> and the two
  \<open>new Date().toISOString()\<close>.
\<close>

record clock_reads =
  date_now :: nat
  created_iso :: string
  updated_iso :: string

definition empty_page :: PaginatedReviewsResponse where
  "empty_page = \<lparr>items = [], total = 0, resp_page = 1, resp_page_size = 5\<rparr>"

definition optimistic :: "submit_payload \<Rightarrow> string \<Rightarrow> clock_reads \<Rightarrow> Review" where
  "optimistic payload tmp clk =
     [(''id'', JStr tmp),
      (''language'', JStr (payload_language payload)),
      (''status'', JStr ''pending''),
      (''created_at'', JStr (created_iso clk)),
      (''updated_at'', JStr (updated_iso clk)),
      (''score'', JNull),
      (''issues'', JArr []),
      (''security'', JArr []),
      (''performance'', JArr []),
      (''suggestions'', JArr []),
      (''error'', JNull)]"

text \<open>\<open>old?.items ?? []\<close>\<close>

definition base_items :: "PaginatedReviewsResponse option \<Rightarrow> Review list" where
  "base_items old = (case old of None \<Rightarrow> [] | Some p \<Rightarrow> items p)"

definition onMutate ::
  "PaginatedReviewsResponse option \<Rightarrow> submit_payload \<Rightarrow> clock_reads
     \<Rightarrow> PaginatedReviewsResponse option \<times> mutation_context" where
  "onMutate old payload clk =
     (let prev = (case old of None \<Rightarrow> empty_page | Some p \<Rightarrow> p);
          tmp = ''temp-'' @ digits (date_now clk);
          base = base_items old
      in (Some \<lparr>items = take 5 (optimistic payload tmp clk # base),
                 total = (case old of None \<Rightarrow> 0 | Some p \<Rightarrow> total p) + 1,
                 resp_page = (case old of None \<Rightarrow> 1 | Some p \<Rightarrow> resp_page p),
                 resp_page_size = (case old of None \<Rightarrow> 5 | Some p \<Rightarrow> resp_page_size p)\<rparr>,
          \<lparr>previous = prev, tempId = tmp\<rparr>))"

text \<open>
  \<open>{ ...r, id: res.id, status: res.status }\<close>: a property that exists keeps its place
  and takes the new value, one that does not is added at the end.
\<close>

definition confirm_review :: "submit_response \<Rightarrow> Review \<Rightarrow> Review" where
  "confirm_review res r =
     AList.update ''status'' (JStr (res_status res)) (AList.update ''id'' (JStr (res_id res)) r)"

text \<open>\<open>r.id === ctx?.tempId\<close>, where either side may be \<open>undefined\<close>.\<close>

definition is_temp :: "mutation_context option \<Rightarrow> Review \<Rightarrow> bool" where
  "is_temp ctx r = (map_of r ''id'' = map_option (\<lambda>c. JStr (tempId c)) ctx)"

definition onSuccess ::
  "submit_page \<Rightarrow> submit_response \<Rightarrow> mutation_context option \<Rightarrow> submit_page" where
  "onSuccess st res ctx =
     st\<lparr>active_id := Some (res_id res),
        reviews_data :=
          Some (case reviews_data st of
                  None \<Rightarrow> empty_page
                | Some old \<Rightarrow>
                    old\<lparr>items := map (\<lambda>r. if is_temp ctx r then confirm_review res r else r)
                                      (items old)\<rparr>)\<rparr>"

definition error_message :: "thrown \<Rightarrow> string" where
  "error_message err = (case err of ErrorObj m \<Rightarrow> m | NonError \<Rightarrow> ''Submit failed'')"

definition causedByRateLimit :: "thrown \<Rightarrow> bool" where
  "causedByRateLimit err = str_includes (error_message err) ''429''"

definition rate_limit_toast :: toast_notice where
  "rate_limit_toast =
     \<lparr>toast_title = ''Slow down a bit'', toast_position = ''top-center'',
      toast_description = ''You submitted reviews too quickly. The limit resets each hour.''\<rparr>"

definition onError :: "submit_page \<Rightarrow> thrown \<Rightarrow> mutation_context option \<Rightarrow> submit_page" where
  "onError st err ctx =
     (let st1 = (case ctx of Some c \<Rightarrow> st\<lparr>reviews_data := Some (previous c)\<rparr> | None \<Rightarrow> st)
      in if causedByRateLimit err then st1\<lparr>notices := notices st1 @ [rate_limit_toast]\<rparr>
         else st1)"

definition onSettled :: "submit_page \<Rightarrow> submit_page" where
  "onSettled st = st\<lparr>reviews_stale := True\<rparr>"

text \<open>
  One run of the mutation: \<open>onMutate\<close>, the call to \<open>submitReview\<close> (its outcome is
  the server's: a response, or a thrown value), then \<open>onSuccess\<close> or \<open>onError\<close>, then
  \<open>onSettled\<close>.
\<close>

definition mutateAsync ::
  "submit_page \<Rightarrow> submit_payload \<Rightarrow> clock_reads \<Rightarrow> thrown + submit_response \<Rightarrow> submit_page" where
  "mutateAsync st payload clk outcome =
     (let (data, ctx) = onMutate (reviews_data st) payload clk;
          st1 = st\<lparr>reviews_data := data\<rparr>
      in onSettled (case outcome of
                      Inr res \<Rightarrow> onSuccess st1 res (Some ctx)
                    | Inl err \<Rightarrow> onError st1 err (Some ctx)))"

definition onSubmit ::
  "submit_page \<Rightarrow> submit_payload \<Rightarrow> clock_reads \<Rightarrow> thrown + submit_response \<Rightarrow> submit_page" where
  "onSubmit st payload clk outcome = mutateAsync (st\<lparr>active_id := None\<rparr>) payload clk outcome"

section \<open>The pipeline behind the API\<close>

text \<open>
  The Rate Limiter, the Content Cache and the Worker Pool run on the server. Their code
  is not among the sources, which hold the two frontend pages only, so the definitions
  of this section follow the specification, sections 3, 4.1, 4.2, 4.4 and 6.
\<close>

subsection \<open>Rate Limiter\<close>

text \<open>
  Modelled from the spec: the Rate Limiter's configuration, the window length and the
  ceiling of section 6. The limiter's code is missing from the sources.
\<close>

record limiter_config =
  window_length :: nat
  rate_ceiling :: nat

text \<open>
  Modelled from the spec: the two answers of \<open>admit(identity) -> allow | deny\<close>
  (section 4.1); the limiter's code is missing from the sources.
\<close>

datatype admission = Allow | Deny

text \<open>
  Modelled from the spec: the Rate Counters of section 3, keyed by the client identity
  and a time bucket, with the request count as value; a counter that was never set, or
  that has expired, is absent. The counter store is missing from the sources.
\<close>

type_synonym 'i rate_counters = "'i \<times> nat \<Rightarrow> nat option"

text \<open>
  Modelled from the spec: the fixed window of section 4.1. Windows have the configured
  length and start at its multiples, so a time falls in the bucket numbered by the
  quotient. The limiter's code is missing from the sources.
\<close>

definition time_bucket :: "limiter_config \<Rightarrow> nat \<Rightarrow> nat" where
  "time_bucket cfg now = now div window_length cfg"

text \<open>
  Modelled from the spec: reading a Rate Counter; an absent counter counts no request.
  The counter store is missing from the sources.
\<close>

definition counter_value :: "'i rate_counters \<Rightarrow> 'i \<Rightarrow> nat \<Rightarrow> nat" where
  "counter_value cs ident b = (case cs (ident, b) of None \<Rightarrow> 0 | Some n \<Rightarrow> n)"

text \<open>
  Modelled from the spec: \<open>admit\<close> of section 4.1, missing from the sources. The answer
  is \<open>deny\<close> once the counter of the identity's current window has reached the ceiling;
  every call, allowed or denied, increments that counter.
\<close>

definition admit ::
  "limiter_config \<Rightarrow> 'i rate_counters \<Rightarrow> 'i \<Rightarrow> nat \<Rightarrow> admission \<times> 'i rate_counters" where
  "admit cfg cs ident now =
     (let b = time_bucket cfg now;
          n = counter_value cs ident b
      in (if rate_ceiling cfg \<le> n then Deny else Allow, cs((ident, b) \<mapsto> n + 1)))"

text \<open>
  Modelled from the spec: a sequence of calls to \<open>admit\<close>, each by an identity at a
  time, served in order on the shared counters. The Submission Gateway that makes the
  calls is missing from the sources.
\<close>

fun admit_all ::
  "limiter_config \<Rightarrow> 'i rate_counters \<Rightarrow> ('i \<times> nat) list \<Rightarrow> admission list \<times> 'i rate_counters" where
  "admit_all cfg cs [] = ([], cs)"
| "admit_all cfg cs (c # rest) =
     (let (d, cs1) = admit cfg cs (fst c) (snd c);
          (ds, cs2) = admit_all cfg cs1 rest
      in (d # ds, cs2))"

subsection \<open>Content Cache and Worker Pool\<close>

text \<open>
  Modelled from the spec: the status values of section 3, \<open>pending\<close>, \<open>in_progress\<close>,
  \<open>completed\<close> and \<open>failed\<close>. The server's declaration is missing from the sources.
\<close>

datatype status = Pending | In_progress | Completed | Failed

text \<open>
  Modelled from the spec: the result record of sections 3 and 6, as far as the cache is
  concerned: the status, the score, the issues, the suggestions and the nullable failure
  reason. The server's declaration is missing from the sources.
\<close>

record result_record =
  rec_status :: status
  rec_score :: "int option"
  rec_issues :: "string list"
  rec_suggestions :: "string list"
  rec_error :: "string option"

text \<open>
  Modelled from the spec: the Cache Entry of section 3, a result snapshot with an expiry.
  The cache's code is missing from the sources.
\<close>

record cache_entry =
  entry_value :: result_record
  expires_at :: nat

text \<open>
  Modelled from the spec: the Content Cache, from keys to entries. A key stands for the
  hash of the language, the normalized source text and the scope (section 4.2). The
  cache's code is missing from the sources.
\<close>

type_synonym 'k content_cache = "'k \<Rightarrow> cache_entry option"

text \<open>
  Modelled from the spec: \<open>store\<close> of section 4.2, an unconditional overwrite with the
  expiry a time-to-live ahead. The cache's code is missing from the sources.
\<close>

definition store :: "'k content_cache \<Rightarrow> 'k \<Rightarrow> result_record \<Rightarrow> nat \<Rightarrow> nat \<Rightarrow> 'k content_cache" where
  "store c k result ttl now = c(k \<mapsto> \<lparr>entry_value = result, expires_at = now + ttl\<rparr>)"

text \<open>
  Modelled from the spec: \<open>lookup\<close> of section 4.2, a miss when the key has no entry or
  its entry has expired. The cache's code is missing from the sources.
\<close>

definition lookup :: "'k content_cache \<Rightarrow> 'k \<Rightarrow> nat \<Rightarrow> result_record option" where
  "lookup c k now =
     (case c k of
        None \<Rightarrow> None
      | Some e \<Rightarrow> if now < expires_at e then Some (entry_value e) else None)"

text \<open>
  Modelled from the spec: what the Worker Pool ends a task with (section 4.4): the
  engine's output parsed and normalized into a score, issues and suggestions, or no
  usable output (malformed, required fields missing, or the engine failing after the
  last retry) with the reason. The worker's code is missing from the sources.
\<close>

datatype engine_outcome =
    Reviewed int "string list" "string list"
  | Unusable string

text \<open>
  Modelled from the spec: the end of a task in the Worker Pool (section 4.4), missing
  from the sources. On a usable output the submission is \<open>completed\<close> and the result is
  written to the cache; otherwise it is \<open>failed\<close> with the reason and the cache is not
  touched.
\<close>

definition worker_finish ::
  "'k content_cache \<Rightarrow> 'k \<Rightarrow> engine_outcome \<Rightarrow> nat \<Rightarrow> nat \<Rightarrow> result_record \<times> 'k content_cache" where
  "worker_finish c k outcome ttl now =
     (case outcome of
        Reviewed score issues suggestions \<Rightarrow>
          (let r = \<lparr>rec_status = Completed, rec_score = Some score, rec_issues = issues,
                    rec_suggestions = suggestions, rec_error = None\<rparr>
           in (r, store c k r ttl now))
      | Unusable reason \<Rightarrow>
          (\<lparr>rec_status = Failed, rec_score = None, rec_issues = [], rec_suggestions = [],
            rec_error = Some reason\<rparr>, c))"

text \<open>
  Modelled from the spec: the cache states the pipeline can reach. The cache starts
  empty; the Worker Pool is the only writer (section 3); an entry may be evicted at any
  time (section 4.2); the Gateway's \<open>lookup\<close> changes nothing. The pipeline's code is
  missing from the sources.
\<close>

inductive reachable :: "'k content_cache \<Rightarrow> bool" where
  reachable_empty: "reachable Map.empty"
| reachable_worker: "reachable c \<Longrightarrow> reachable (snd (worker_finish c k outcome ttl now))"
| reachable_evict: "reachable c \<Longrightarrow> reachable (c(k := None))"

text \<open>
  Modelled from the spec: the invariant of section 3 on a cache state, every entry holds
  a \<open>completed\<close> result.
\<close>

definition entries_completed :: "'k content_cache \<Rightarrow> bool" where
  "entries_completed c \<longleftrightarrow> (\<forall>k e. c k = Some e \<longrightarrow> rec_status (entry_value e) = Completed)"

section \<open>Properties of \<open>History.tsx\<close>\<close>

lemma digit_char_not_lf: "d < 10 \<Longrightarrow> digit_char d \<noteq> CHR 0x0A"
proof -
  assume "d < 10"
  then have "digit_char d \<in> set ''0123456789''"
    unfolding digit_char_def by (intro nth_mem) simp
  then show ?thesis by auto
qed

lemma hex_char_not_lf: "d < 16 \<Longrightarrow> hex_char d \<noteq> CHR 0x0A"
proof -
  assume "d < 16"
  then have "hex_char d \<in> set ''0123456789abcdef''"
    unfolding hex_char_def by (intro nth_mem) simp
  then show ?thesis by auto
qed

lemma json_escape_no_lf: "CHR 0x0A \<notin> set (json_escape c)"
proof -
  have lf: "of_char c \<noteq> (10::nat) \<Longrightarrow> CHR 0x0A \<noteq> c" by auto
  have "of_char c < (256::nat)"
    by (metis of_char_mod_256 mod_less_divisor zero_less_numeral)
  then have "of_char c div 16 < (16::nat)" "of_char c mod 16 < (16::nat)"
    by (simp_all add: less_mult_imp_div_less)
  then have hx: "CHR 0x0A \<noteq> hex_char (of_char c div 16)" "CHR 0x0A \<noteq> hex_char (of_char c mod 16)"
    using hex_char_not_lf by metis+
  show ?thesis
    unfolding json_escape_def Let_def using lf hx by simp
qed

lemma QuoteJSONString_no_lf: "CHR 0x0A \<notin> set (QuoteJSONString s)"
  by (simp add: QuoteJSONString_def json_escape_no_lf)

lemma digits_no_lf: "CHR 0x0A \<notin> set (digits n)"
proof (induction n rule: digits.induct)
  case (1 n)
  show ?case
  proof (cases "n < 10")
    case True
    then show ?thesis using digit_char_not_lf [of n] by (subst digits.simps) auto
  next
    case False
    then show ?thesis
      using 1 digit_char_not_lf [of "n mod 10"] by (subst digits.simps) auto
  qed
qed

lemma number_to_string_no_lf: "CHR 0x0A \<notin> set (number_to_string i)"
  by (simp add: number_to_string_def digits_no_lf)

lemma join_no_lf:
  "c \<notin> set sep \<Longrightarrow> (\<And>x. x \<in> set xs \<Longrightarrow> c \<notin> set x) \<Longrightarrow> c \<notin> set (join sep xs)"
  by (induction sep xs rule: join.induct) auto

lemma JSON_stringify_no_lf: "CHR 0x0A \<notin> set (JSON_stringify v)"
proof (induction v rule: JSON_stringify.induct)
  case (5 vs)
  have "CHR 0x0A \<notin> set (join '','' (map JSON_stringify vs))"
    by (rule join_no_lf) (use 5 in auto)
  then show ?case by simp
next
  case (6 kvs)
  have "CHR 0x0A \<notin> set (join '','' (map (\<lambda>kv. QuoteJSONString (fst kv) @ '':'' @ JSON_stringify (snd kv)) kvs))"
    by (rule join_no_lf) (use 6 QuoteJSONString_no_lf in auto)
  then show ?case by simp
qed (simp_all add: QuoteJSONString_no_lf number_to_string_no_lf)

lemma split_lines_no_lf: "CHR 0x0A \<notin> set l \<Longrightarrow> split_lines l = [l]"
  by (induction l) auto

lemma split_lines_append:
  "CHR 0x0A \<notin> set l \<Longrightarrow> split_lines (l @ CHR 0x0A # rest) = l # split_lines rest"
  by (induction l) auto

lemma split_lines_join:
  "(\<And>x. x \<in> set (l # ls) \<Longrightarrow> CHR 0x0A \<notin> set x) \<Longrightarrow> split_lines (join [CHR 0x0A] (l # ls)) = l # ls"
proof (induction ls arbitrary: l)
  case Nil
  then show ?case by (simp add: split_lines_no_lf)
next
  case (Cons a ls)
  have "split_lines (join [CHR 0x0A] (a # ls)) = a # ls"
    by (rule Cons.IH) (use Cons.prems in auto)
  moreover have "CHR 0x0A \<notin> set l" using Cons.prems by auto
  ultimately show ?case by (simp add: split_lines_append)
qed

lemma csv_line_no_lf: "CHR 0x0A \<notin> set (csv_line r)"
  unfolding csv_line_def by (rule join_no_lf) (auto simp: JSON_stringify_no_lf)

lemma header_line: "join '','' headers = ''id,language,status,score,created_at''"
  by (simp add: headers_def)

lemma row_cell_csv_row:
  assumes "h \<in> set headers"
  shows "row_cell (csv_row r) h = nullish_or (map_of r h) (JStr [])"
proof (cases "map_of r ''score''")
  case None
  with assms show ?thesis by (auto simp: headers_def row_cell_def csv_row_def)
next
  case (Some v)
  with assms show ?thesis by (cases v) (auto simp: headers_def row_cell_def csv_row_def)
qed

lemma csv_line_csv_row:
  "csv_line (csv_row r) =
     join '','' (map (\<lambda>h. JSON_stringify (nullish_or (map_of r h) (JStr []))) headers)"
  unfolding csv_line_def by (simp cong: map_cong add: row_cell_csv_row)

text \<open>
  Claim C10. For every list of items, the text \<open>exportCSV\<close> builds has exactly
  \<open>length items + 1\<close> lines. The first is the header
  \<open>id,language,status,score,created_at\<close>; line \<open>i + 1\<close> is the row of item \<open>i\<close>, in
  list order: the five fields joined by commas, each the \<open>JSON.stringify\<close> of the item's
  property, or of the empty string when the property is null or missing. So a null
  score is the quoted empty string, a string is quoted and escaped, a number is its
  decimal numeral.
\<close>

theorem exportCSV_lines:
  "split_lines (exportCSV reviews) =
     ''id,language,status,score,created_at'' #
     map (\<lambda>r. join '','' (map (\<lambda>h. JSON_stringify (nullish_or (map_of r h) (JStr [])))
                          [''id'', ''language'', ''status'', ''score'', ''created_at''])) reviews
   \<and> length (split_lines (exportCSV reviews)) = length reviews + 1
   \<and> JSON_stringify (nullish_or (Some JNull) (JStr [])) = [CHR 0x22, CHR 0x22]
   \<and> JSON_stringify (nullish_or None (JStr [])) = [CHR 0x22, CHR 0x22]
   \<and> JSON_stringify (nullish_or (Some (JStr s)) (JStr [])) = QuoteJSONString s
   \<and> JSON_stringify (nullish_or (Some (JNum n)) (JStr [])) = number_to_string n"
proof -
  have "split_lines (join [CHR 0x0A] (join '','' headers # map csv_line (map csv_row reviews)))
        = join '','' headers # map csv_line (map csv_row reviews)"
    by (rule split_lines_join) (auto simp: header_line csv_line_no_lf)
  then have lines: "split_lines (exportCSV reviews) =
      ''id,language,status,score,created_at'' # map (\<lambda>r. csv_line (csv_row r)) reviews"
    by (simp add: exportCSV_def header_line comp_def)
  have rows: "map (\<lambda>r. csv_line (csv_row r)) reviews =
     map (\<lambda>r. join '','' (map (\<lambda>h. JSON_stringify (nullish_or (map_of r h) (JStr [])))
                          [''id'', ''language'', ''status'', ''score'', ''created_at''])) reviews"
    by (simp only: csv_line_csv_row headers_def)
  have quoted: "JSON_stringify (JStr []) = [CHR 0x22, CHR 0x22]"
    by (simp add: QuoteJSONString_def)
  show ?thesis
    using lines rows quoted by simp
qed

text \<open>Two items, the second with a null score.\<close>

theorem exportCSV_lines_witness:
  "split_lines (exportCSV
      [[(''id'', JStr ''a1''), (''language'', JStr ''python''), (''status'', JStr ''completed''),
        (''score'', JNum 7), (''created_at'', JStr ''2025-01-01T00:00:00.000Z'')],
       [(''id'', JStr ''b2''), (''language'', JStr ''go''), (''status'', JStr ''failed''),
        (''score'', JNull), (''created_at'', JStr ''2025-01-02T00:00:00.000Z'')]])
   = [''id,language,status,score,created_at'',
      [CHR 0x22] @ ''a1'' @ [CHR 0x22] @ '','' @ [CHR 0x22] @ ''python'' @ [CHR 0x22] @ '','' @
      [CHR 0x22] @ ''completed'' @ [CHR 0x22] @ '',7,'' @
      [CHR 0x22] @ ''2025-01-01T00:00:00.000Z'' @ [CHR 0x22],
      [CHR 0x22] @ ''b2'' @ [CHR 0x22] @ '','' @ [CHR 0x22] @ ''go'' @ [CHR 0x22] @ '','' @
      [CHR 0x22] @ ''failed'' @ [CHR 0x22] @ '','' @ [CHR 0x22, CHR 0x22] @ '','' @
      [CHR 0x22] @ ''2025-01-02T00:00:00.000Z'' @ [CHR 0x22]]"
  using exportCSV_lines [of
      "[[(''id'', JStr ''a1''), (''language'', JStr ''python''), (''status'', JStr ''completed''),
        (''score'', JNum 7), (''created_at'', JStr ''2025-01-01T00:00:00.000Z'')],
       [(''id'', JStr ''b2''), (''language'', JStr ''go''), (''status'', JStr ''failed''),
        (''score'', JNull), (''created_at'', JStr ''2025-01-02T00:00:00.000Z'')]]"]
  by (simp add: QuoteJSONString_def json_escape_def number_to_string_def digits.simps digit_char_def)

text \<open>
  Claim C9. \<open>toReviewParams\<close> sets \<open>min_score\<close> exactly when the lower bound of the
  score range is above 0 and \<open>max_score\<close> exactly when the upper bound is below 10 (an
  absent range counts as 0 to 10); \<open>language\<close> exactly when the filter's language is a
  non-empty string other than \<open>all\<close>; \<open>start_date\<close> exactly when the filter has a date
  range with a start, as the ISO text of that start; \<open>end_date\<close> exactly when the filter
  has a date range with an end, as the ISO text of the end of that day. \<open>page_size\<close> is
  always 20, and the default filters give the page number and the page size only.
\<close>

theorem toReviewParams_fields:
  "min_score (toReviewParams toISOString endOfDay f pg) =
     (if 0 < fst (case scoreRange f of None \<Rightarrow> (0, 10) | Some r \<Rightarrow> r)
      then Some (fst (case scoreRange f of None \<Rightarrow> (0, 10) | Some r \<Rightarrow> r)) else None)
   \<and> max_score (toReviewParams toISOString endOfDay f pg) =
     (if snd (case scoreRange f of None \<Rightarrow> (0, 10) | Some r \<Rightarrow> r) < 10
      then Some (snd (case scoreRange f of None \<Rightarrow> (0, 10) | Some r \<Rightarrow> r)) else None)
   \<and> language (toReviewParams toISOString endOfDay f pg) =
     (if f_language f \<noteq> None \<and> f_language f \<noteq> Some [] \<and> f_language f \<noteq> Some ''all''
      then f_language f else None)
   \<and> start_date (toReviewParams toISOString endOfDay f pg) =
     (case date f of
        None \<Rightarrow> None
      | Some r \<Rightarrow> (case date_from r of None \<Rightarrow> None | Some d \<Rightarrow> Some (toISOString d)))
   \<and> end_date (toReviewParams toISOString endOfDay f pg) =
     (case date f of
        None \<Rightarrow> None
      | Some r \<Rightarrow> (case date_to r of None \<Rightarrow> None | Some d \<Rightarrow> Some (toISOString (endOfDay d))))
   \<and> (start_date (toReviewParams toISOString endOfDay f pg) \<noteq> None) =
     (\<exists>r d. date f = Some r \<and> date_from r = Some d)
   \<and> (end_date (toReviewParams toISOString endOfDay f pg) \<noteq> None) =
     (\<exists>r d. date f = Some r \<and> date_to r = Some d)
   \<and> page (toReviewParams toISOString endOfDay f pg) = (case pg of None \<Rightarrow> 1 | Some p \<Rightarrow> p)
   \<and> page_size (toReviewParams toISOString endOfDay f pg) = 20
   \<and> toReviewParams toISOString endOfDay DEFAULT_FILTERS (Some p) =
       \<lparr>page = p, page_size = 20, language = None, min_score = None, max_score = None,
        start_date = None, end_date = None\<rparr>"
  unfolding toReviewParams_def DEFAULT_FILTERS_def date_from_of_def date_to_of_def Let_def
  by (auto split: option.splits prod.splits)

text \<open>
  A filter with a language, a score range and both ends of the date range; a filter
  with a closing date only; and the default filters. The start date is printed as it
  is, the closing date after it has been moved to the end of its day.
\<close>

theorem toReviewParams_fields_witness:
  "toReviewParams (\<lambda>d :: nat. digits d) (\<lambda>d. d + 86399)
     \<lparr>f_language = Some ''python'', scoreRange = Some (3, 8),
      date = Some \<lparr>date_from = Some 100, date_to = Some 200\<rparr>\<rparr> (Some 2)
   = \<lparr>page = 2, page_size = 20, language = Some ''python'', min_score = Some 3,
      max_score = Some 8, start_date = Some ''100'', end_date = Some ''86599''\<rparr>
   \<and> toReviewParams (\<lambda>d :: nat. digits d) (\<lambda>d. d + 86399)
     \<lparr>f_language = Some ''all'', scoreRange = None,
      date = Some \<lparr>date_from = None, date_to = Some 200\<rparr>\<rparr> None
   = \<lparr>page = 1, page_size = 20, language = None, min_score = None,
      max_score = None, start_date = None, end_date = Some ''86599''\<rparr>
   \<and> toReviewParams (\<lambda>d :: nat. digits d) (\<lambda>d. d + 86399) DEFAULT_FILTERS (Some 1)
   = \<lparr>page = 1, page_size = 20, language = None, min_score = None, max_score = None,
      start_date = None, end_date = None\<rparr>"
proof -
  have iso: "digits 100 = ''100''" "digits (200 + 86399) = ''86599''"
    by (simp_all add: digits.simps digit_char_def)
  show ?thesis
    using iso
      toReviewParams_fields [of "\<lambda>d :: nat. digits d" "\<lambda>d. d + 86399"
        "\<lparr>f_language = Some ''python'', scoreRange = Some (3, 8),
          date = Some \<lparr>date_from = Some 100, date_to = Some 200\<rparr>\<rparr>" "Some 2" 1]
      toReviewParams_fields [of "\<lambda>d :: nat. digits d" "\<lambda>d. d + 86399"
        "\<lparr>f_language = Some ''all'', scoreRange = None,
          date = Some \<lparr>date_from = None, date_to = Some 200\<rparr>\<rparr>" None 1]
    by simp
qed

section \<open>Properties of \<open>Submit.tsx\<close>\<close>

lemma str_includes_iff: "str_includes s p \<longleftrightarrow> (\<exists>a b. s = a @ p @ b)"
proof (induction s)
  case Nil
  then show ?case by auto
next
  case (Cons c cs)
  have "(\<exists>a b. c # cs = a @ p @ b) \<longleftrightarrow> prefix p (c # cs) \<or> (\<exists>a b. cs = a @ p @ b)"
  proof
    assume "\<exists>a b. c # cs = a @ p @ b"
    then obtain a b where ab: "c # cs = a @ p @ b" by blast
    show "prefix p (c # cs) \<or> (\<exists>a b. cs = a @ p @ b)"
    proof (cases a)
      case Nil
      with ab show ?thesis by (auto simp: prefix_def)
    next
      case (Cons x a')
      with ab have "cs = a' @ p @ b" by simp
      then show ?thesis by blast
    qed
  next
    assume "prefix p (c # cs) \<or> (\<exists>a b. cs = a @ p @ b)"
    then show "\<exists>a b. c # cs = a @ p @ b"
    proof
      assume "prefix p (c # cs)"
      then obtain b where "c # cs = p @ b" by (auto simp: prefix_def)
      then have "c # cs = [] @ p @ b" by simp
      then show ?thesis by blast
    next
      assume "\<exists>a b. cs = a @ p @ b"
      then obtain a b where "cs = a @ p @ b" by blast
      then have "c # cs = (c # a) @ p @ b" by simp
      then show ?thesis by blast
    qed
  qed
  with Cons show ?case by simp
qed

lemma onError_active_id: "active_id (onError st err ctx) = active_id st"
  by (simp add: onError_def Let_def split: option.splits)

lemma onError_reviews_data:
  "reviews_data (onError st err ctx) = (case ctx of None \<Rightarrow> reviews_data st | Some c \<Rightarrow> Some (previous c))"
  by (simp add: onError_def Let_def split: option.splits)

lemma onMutate_previous:
  "previous (snd (onMutate old payload clk)) = (case old of None \<Rightarrow> empty_page | Some p \<Rightarrow> p)"
  by (simp add: onMutate_def Let_def)

lemma onSubmit_failure:
  "onSubmit st payload clk (Inl err) =
     onSettled (onError (st\<lparr>active_id := None, reviews_data := fst (onMutate (reviews_data st) payload clk)\<rparr>)
        err (Some (snd (onMutate (reviews_data st) payload clk))))"
  by (simp add: onSubmit_def mutateAsync_def Let_def split: prod.splits)

lemma onSubmit_success:
  "onSubmit st payload clk (Inr res) =
     onSettled (onSuccess (st\<lparr>active_id := None, reviews_data := fst (onMutate (reviews_data st) payload clk)\<rparr>)
        res (Some (snd (onMutate (reviews_data st) payload clk))))"
  by (simp add: onSubmit_def mutateAsync_def Let_def split: prod.splits)

text \<open>
  Claim C8. When the submit call fails, the cached reviews page after the attempt is the
  snapshot \<open>onMutate\<close> took before the optimistic insert: the page that was cached, or
  the empty first page when nothing was cached; the list of cached reviews is the one
  before the attempt. \<open>onError\<close> writes the snapshot of its context whatever the cache
  holds at that moment, and leaves the cache alone without a context. The active
  submission id is cleared at the start of an attempt and set only by a successful
  call, to the id of the response.
\<close>

theorem submit_failure_restores_snapshot:
  "reviews_data (onSubmit st payload clk (Inl err)) =
      Some (previous (snd (onMutate (reviews_data st) payload clk)))
   \<and> previous (snd (onMutate (reviews_data st) payload clk)) =
      (case reviews_data st of None \<Rightarrow> empty_page | Some p \<Rightarrow> p)
   \<and> base_items (reviews_data (onSubmit st payload clk (Inl err))) = base_items (reviews_data st)
   \<and> reviews_data (onError st' err (Some ctx)) = Some (previous ctx)
   \<and> reviews_data (onError st' err None) = reviews_data st'
   \<and> active_id (onSubmit st payload clk (Inl err)) = None
   \<and> active_id (onSubmit st payload clk (Inr res)) = Some (res_id res)"
  by (simp add: onSubmit_failure onSubmit_success onSettled_def onError_reviews_data onError_active_id
        onMutate_previous onSuccess_def base_items_def empty_page_def split: option.splits)

text \<open>A failed attempt on a cache that holds one review.\<close>

theorem submit_failure_restores_snapshot_witness:
  "reviews_data (onSubmit
      \<lparr>active_id = Some ''r1'',
       reviews_data = Some \<lparr>items = [[(''id'', JStr ''r1'')]], total = 1, resp_page = 1, resp_page_size = 5\<rparr>,
       reviews_stale = False, notices = []\<rparr>
      \<lparr>payload_language = ''python'', payload_code = ''print(1)''\<rparr>
      \<lparr>date_now = 1700, created_iso = ''t1'', updated_iso = ''t2''\<rparr>
      (Inl (ErrorObj ''Network down'')))
   = Some \<lparr>items = [[(''id'', JStr ''r1'')]], total = 1, resp_page = 1, resp_page_size = 5\<rparr>
   \<and> active_id (onSubmit
      \<lparr>active_id = Some ''r1'',
       reviews_data = Some \<lparr>items = [[(''id'', JStr ''r1'')]], total = 1, resp_page = 1, resp_page_size = 5\<rparr>,
       reviews_stale = False, notices = []\<rparr>
      \<lparr>payload_language = ''python'', payload_code = ''print(1)''\<rparr>
      \<lparr>date_now = 1700, created_iso = ''t1'', updated_iso = ''t2''\<rparr>
      (Inl (ErrorObj ''Network down''))) = None"
  using submit_failure_restores_snapshot [of
      "\<lparr>active_id = Some ''r1'',
       reviews_data = Some \<lparr>items = [[(''id'', JStr ''r1'')]], total = 1, resp_page = 1, resp_page_size = 5\<rparr>,
       reviews_stale = False, notices = []\<rparr>"
      "\<lparr>payload_language = ''python'', payload_code = ''print(1)''\<rparr>"
      "\<lparr>date_now = 1700, created_iso = ''t1'', updated_iso = ''t2''\<rparr>"
      "ErrorObj ''Network down''"]
  by simp

text \<open>
  Claim C3. The rate-limit notice is meant for rate-limit denials: the flag is named
  \<open>causedByRateLimit\<close> and the notice says that reviews were submitted too quickly.
  \<open>onError\<close> sets the flag by searching the error's message for the digits 429, wherever
  they stand. An error that reports the status 500 and carries the request number 74291
  is no rate-limit denial, yet \<open>onError\<close> shows the rate-limit notice for it, and so does
  a whole failed submission attempt; the attempt assigns no submission id.
\<close>

theorem rate_limit_notice_false_positive:
  "causedByRateLimit (ErrorObj ''500 Internal Server Error (request 74291)'')
   \<and> notices (onError \<lparr>active_id = None, reviews_data = None, reviews_stale = False, notices = []\<rparr>
        (ErrorObj ''500 Internal Server Error (request 74291)'') None) = [rate_limit_toast]
   \<and> notices (onSubmit \<lparr>active_id = None, reviews_data = None, reviews_stale = False, notices = []\<rparr>
        \<lparr>payload_language = ''python'', payload_code = ''print(1)''\<rparr>
        \<lparr>date_now = 1700, created_iso = ''t1'', updated_iso = ''t2''\<rparr>
        (Inl (ErrorObj ''500 Internal Server Error (request 74291)''))) = [rate_limit_toast]
   \<and> active_id (onSubmit \<lparr>active_id = None, reviews_data = None, reviews_stale = False, notices = []\<rparr>
        \<lparr>payload_language = ''python'', payload_code = ''print(1)''\<rparr>
        \<lparr>date_now = 1700, created_iso = ''t1'', updated_iso = ''t2''\<rparr>
        (Inl (ErrorObj ''500 Internal Server Error (request 74291)''))) = None"
proof -
  have flag: "causedByRateLimit (ErrorObj ''500 Internal Server Error (request 74291)'')"
    by (simp add: causedByRateLimit_def error_message_def)
  show ?thesis
    using flag
    by (simp add: onSubmit_failure onSettled_def onError_def Let_def)
qed

section \<open>Properties of the pipeline\<close>

lemma counter_admit:
  "counter_value (snd (admit cfg cs i now)) j b =
     (if j = i \<and> b = time_bucket cfg now then counter_value cs j b + 1 else counter_value cs j b)"
  by (simp add: admit_def Let_def counter_value_def)

lemma counter_admit_all:
  "counter_value (snd (admit_all cfg cs calls)) i b =
     counter_value cs i b + length (filter (\<lambda>c. fst c = i \<and> time_bucket cfg (snd c) = b) calls)"
proof (induction calls arbitrary: cs)
  case Nil
  then show ?case by simp
next
  case (Cons c calls)
  have "snd (admit_all cfg cs (c # calls)) = snd (admit_all cfg (snd (admit cfg cs (fst c) (snd c))) calls)"
    by (simp add: Let_def split: prod.splits)
  then show ?case
    by (simp add: Cons.IH counter_admit)
qed

lemma admit_decision:
  "fst (admit cfg cs i now) =
     (if rate_ceiling cfg \<le> counter_value cs i (time_bucket cfg now) then Deny else Allow)"
  by (simp add: admit_def Let_def)

text \<open>
  Claim C4. \<open>admit\<close> answers \<open>deny\<close> exactly when the counter of the identity's current
  window has reached the ceiling. After any sequence of calls on fresh counters, the
  counter of an identity and a window is the number of calls that identity made in that
  window, so the next call is denied exactly when it is the \<open>N\<close>th of its identity in
  its window with \<open>N\<close> above the ceiling. Once the window boundary has passed, that is
  when every earlier call fell in an earlier window, the counter of the current window
  is zero.
\<close>

theorem admit_denies_at_ceiling:
  "fst (admit cfg cs i now) =
      (if rate_ceiling cfg \<le> counter_value cs i (time_bucket cfg now) then Deny else Allow)
   \<and> counter_value (snd (admit_all cfg Map.empty calls)) i b =
      length (filter (\<lambda>c. fst c = i \<and> time_bucket cfg (snd c) = b) calls)
   \<and> (fst (admit cfg (snd (admit_all cfg Map.empty calls)) i now) = Deny \<longleftrightarrow>
       rate_ceiling cfg <
         length (filter (\<lambda>c. fst c = i \<and> time_bucket cfg (snd c) = time_bucket cfg now) calls) + 1)
   \<and> ((\<forall>c \<in> set calls. time_bucket cfg (snd c) < time_bucket cfg now) \<longrightarrow>
       counter_value (snd (admit_all cfg Map.empty calls)) i (time_bucket cfg now) = 0)"
proof -
  have empty: "counter_value Map.empty i b' = 0" for b' :: nat
    by (simp add: counter_value_def)
  have count: "counter_value (snd (admit_all cfg Map.empty calls)) i b' =
      length (filter (\<lambda>c. fst c = i \<and> time_bucket cfg (snd c) = b') calls)" for b'
    by (simp add: counter_admit_all empty)
  have reset: "length (filter (\<lambda>c. fst c = i \<and> time_bucket cfg (snd c) = time_bucket cfg now) calls) = 0"
    if "\<forall>c \<in> set calls. time_bucket cfg (snd c) < time_bucket cfg now"
    using that by (auto simp: filter_empty_conv)
  show ?thesis
    using reset by (auto simp: admit_decision count)
qed

text \<open>
  Claim C5. Every call to \<open>admit\<close> raises the counter of the caller's identity in the
  current window by exactly one, whatever the answer, and changes no other counter.
\<close>

theorem admit_counts_every_call:
  "counter_value (snd (admit cfg cs i now)) i (time_bucket cfg now) =
      counter_value cs i (time_bucket cfg now) + 1
   \<and> (\<forall>j b. (j, b) \<noteq> (i, time_bucket cfg now) \<longrightarrow>
        counter_value (snd (admit cfg cs i now)) j b = counter_value cs j b)"
  by (auto simp: counter_admit)

lemma worker_finish_completed:
  assumes "entries_completed c"
  shows "entries_completed (snd (worker_finish c k outcome ttl now))"
  using assms
  by (cases outcome) (auto simp: entries_completed_def worker_finish_def store_def Let_def)

lemma reachable_completed: "reachable c \<Longrightarrow> entries_completed c"
proof (induction rule: reachable.induct)
  case reachable_empty
  then show ?case by (simp add: entries_completed_def)
next
  case (reachable_worker c k outcome ttl now)
  then show ?case by (simp add: worker_finish_completed)
next
  case (reachable_evict c k)
  then show ?case by (auto simp: entries_completed_def)
qed

text \<open>
  Claim C2. In every cache state the pipeline can reach, every entry holds a
  \<open>completed\<close> result, so none holds a pending, in-progress or failed one; whatever
  \<open>lookup\<close> returns is the \<open>completed\<close> result of an entry that has not expired; and a
  task that ends \<open>failed\<close> leaves the cache as it was.
\<close>

theorem cache_holds_completed_results_only:
  assumes "reachable c"
  shows "(\<forall>k e. c k = Some e \<longrightarrow> rec_status (entry_value e) = Completed)
    \<and> (\<forall>k now r. lookup c k now = Some r \<longrightarrow>
          rec_status r = Completed \<and> (\<exists>e. c k = Some e \<and> entry_value e = r \<and> now < expires_at e))
    \<and> (\<forall>k reason ttl now. snd (worker_finish c k (Unusable reason) ttl now) = c)"
proof -
  from assms have inv: "entries_completed c" by (rule reachable_completed)
  have "rec_status r = Completed \<and> (\<exists>e. c k = Some e \<and> entry_value e = r \<and> now < expires_at e)"
    if "lookup c k now = Some r" for k now r
    using that inv
    by (auto simp: lookup_def entries_completed_def split: option.splits if_splits)
  moreover have "snd (worker_finish c k (Unusable reason) ttl now) = c" for k reason ttl now
    by (simp add: worker_finish_def)
  ultimately show ?thesis
    using inv by (simp add: entries_completed_def)
qed

text \<open>
  A ceiling of three in windows of an hour: the fourth call of one client in the hour
  is denied, a second client is still allowed, and the next hour starts at zero.
\<close>

theorem admit_denies_at_ceiling_witness:
  "list_all (\<lambda>c. time_bucket \<lparr>window_length = 3600, rate_ceiling = 3\<rparr> (snd c)
                  < time_bucket \<lparr>window_length = 3600, rate_ceiling = 3\<rparr> 3600)
      [(''10.0.0.7'', 0), (''10.0.0.7'', 60), (''10.0.0.9'', 90), (''10.0.0.7'', 3599 :: nat)]
   \<and> fst (admit \<lparr>window_length = 3600, rate_ceiling = 3\<rparr>
        (snd (admit_all \<lparr>window_length = 3600, rate_ceiling = 3\<rparr> Map.empty
           [(''10.0.0.7'', 0), (''10.0.0.7'', 60), (''10.0.0.9'', 90), (''10.0.0.7'', 3599)]))
        ''10.0.0.7'' 3599) = Deny
   \<and> fst (admit \<lparr>window_length = 3600, rate_ceiling = 3\<rparr>
        (snd (admit_all \<lparr>window_length = 3600, rate_ceiling = 3\<rparr> Map.empty
           [(''10.0.0.7'', 0), (''10.0.0.7'', 60), (''10.0.0.9'', 90), (''10.0.0.7'', 3599)]))
        ''10.0.0.9'' 3599) = Allow
   \<and> counter_value
        (snd (admit_all \<lparr>window_length = 3600, rate_ceiling = 3\<rparr> Map.empty
           [(''10.0.0.7'', 0), (''10.0.0.7'', 60), (''10.0.0.9'', 90), (''10.0.0.7'', 3599)]))
        ''10.0.0.7'' (time_bucket \<lparr>window_length = 3600, rate_ceiling = 3\<rparr> 3600) = 0"
proof -
  have before: "\<forall>c \<in> set [(''10.0.0.7'', 0), (''10.0.0.7'', 60), (''10.0.0.9'', 90), (''10.0.0.7'', 3599 :: nat)].
       time_bucket \<lparr>window_length = 3600, rate_ceiling = 3\<rparr> (snd c)
         < time_bucket \<lparr>window_length = 3600, rate_ceiling = 3\<rparr> 3600"
    by (simp add: time_bucket_def)
  show ?thesis
    using before
      admit_denies_at_ceiling [of "\<lparr>window_length = 3600, rate_ceiling = 3\<rparr>" _ "''10.0.0.7''" 3599
        "[(''10.0.0.7'', 0), (''10.0.0.7'', 60), (''10.0.0.9'', 90), (''10.0.0.7'', 3599)]"]
      admit_denies_at_ceiling [of "\<lparr>window_length = 3600, rate_ceiling = 3\<rparr>" _ "''10.0.0.9''" 3599
        "[(''10.0.0.7'', 0), (''10.0.0.7'', 60), (''10.0.0.9'', 90), (''10.0.0.7'', 3599)]"]
      admit_denies_at_ceiling [of "\<lparr>window_length = 3600, rate_ceiling = 3\<rparr>" _ "''10.0.0.7''" 3600
        "[(''10.0.0.7'', 0), (''10.0.0.7'', 60), (''10.0.0.9'', 90), (''10.0.0.7'', 3599)]"]
    by (simp add: time_bucket_def)
qed

text \<open>A denied call and an allowed call, each counted once.\<close>

theorem admit_counts_every_call_witness:
  "fst (admit \<lparr>window_length = 3600, rate_ceiling = 2\<rparr>
          (Map.empty((''10.0.0.7'', 0) \<mapsto> 2)) ''10.0.0.7'' 120) = Deny
   \<and> counter_value (snd (admit \<lparr>window_length = 3600, rate_ceiling = 2\<rparr>
          (Map.empty((''10.0.0.7'', 0) \<mapsto> 2)) ''10.0.0.7'' 120)) ''10.0.0.7'' 0 = 3
   \<and> fst (admit \<lparr>window_length = 3600, rate_ceiling = 2\<rparr>
          (Map.empty((''10.0.0.7'', 0) \<mapsto> 2)) ''10.0.0.9'' 120) = Allow
   \<and> counter_value (snd (admit \<lparr>window_length = 3600, rate_ceiling = 2\<rparr>
          (Map.empty((''10.0.0.7'', 0) \<mapsto> 2)) ''10.0.0.9'' 120)) ''10.0.0.9'' 0 = 1
   \<and> counter_value (snd (admit \<lparr>window_length = 3600, rate_ceiling = 2\<rparr>
          (Map.empty((''10.0.0.7'', 0) \<mapsto> 2)) ''10.0.0.9'' 120)) ''10.0.0.7'' 0 = 2"
proof -
  have other: "(''10.0.0.7'', 0 :: nat) \<noteq> (''10.0.0.9'', time_bucket \<lparr>window_length = 3600, rate_ceiling = 2\<rparr> 120)"
    by simp
  show ?thesis
    using other
      admit_counts_every_call [of "\<lparr>window_length = 3600, rate_ceiling = 2\<rparr>"
        "Map.empty((''10.0.0.7'', 0) \<mapsto> 2)" "''10.0.0.7''" 120]
      admit_counts_every_call [of "\<lparr>window_length = 3600, rate_ceiling = 2\<rparr>"
        "Map.empty((''10.0.0.7'', 0) \<mapsto> 2)" "''10.0.0.9''" 120]
    by (simp add: time_bucket_def counter_value_def admit_def)
qed

text \<open>
  One completed review stored for 100 seconds at time 20: a hit at 119, a miss at 120,
  and no entry for a task that failed.
\<close>

theorem cache_holds_completed_results_only_witness:
  "reachable (snd (worker_finish Map.empty ''k1'' (Reviewed 7 [''unused import''] []) 100 20))
   \<and> lookup (snd (worker_finish Map.empty ''k1'' (Reviewed 7 [''unused import''] []) 100 20)) ''k1'' 119
       = Some \<lparr>rec_status = Completed, rec_score = Some 7, rec_issues = [''unused import''],
               rec_suggestions = [], rec_error = None\<rparr>
   \<and> lookup (snd (worker_finish Map.empty ''k1'' (Reviewed 7 [''unused import''] []) 100 20)) ''k1'' 120
       = None
   \<and> lookup (snd (worker_finish
         (snd (worker_finish Map.empty ''k1'' (Reviewed 7 [''unused import''] []) 100 20))
         ''k2'' (Unusable ''engine timed out'') 100 30)) ''k2'' 31 = None"
proof -
  have r: "reachable (snd (worker_finish (Map.empty :: string content_cache) ''k1''
             (Reviewed 7 [''unused import''] []) 100 20))"
    by (rule reachable_worker [OF reachable_empty])
  show ?thesis
    using r cache_holds_completed_results_only [OF r]
    by (simp add: lookup_def worker_finish_def store_def Let_def)
qed

end
